theory Spec2Isabelle
  imports Complex_Main
begin

section \<open>Python values used by the bot\<close>

text \<open>
  A Python \<open>str\<close> is a sequence of Unicode code points, so text is a list of code
  points; \<open>lit\<close> turns an ASCII literal into such a text. The emoji of the message
  templates are single code points.
\<close>

type_synonym pystr = "nat list"

definition lit :: "string \<Rightarrow> pystr" where
  "lit s = map of_char s"

text \<open>\<open>str.strip()\<close> removes the code points for which \<open>str.isspace\<close> holds.\<close>

definition is_space :: "nat \<Rightarrow> bool" where
  "is_space c \<longleftrightarrow>
     (9 \<le> c \<and> c \<le> 13) \<or> (28 \<le> c \<and> c \<le> 32) \<or> c = 133 \<or> c = 160 \<or> c = 5760
     \<or> (8192 \<le> c \<and> c \<le> 8202) \<or> c = 8232 \<or> c = 8233 \<or> c = 8239 \<or> c = 8287
     \<or> c = 12288"

definition strip :: "pystr \<Rightarrow> pystr" where
  "strip s = rev (dropWhile is_space (rev (dropWhile is_space s)))"

text \<open>Decimal digits of a natural number, as \<open>str(n)\<close> prints them.\<close>

function show_nat :: "nat \<Rightarrow> pystr" where
  "show_nat n = (if n < 10 then [48 + n] else show_nat (n div 10) @ [48 + n mod 10])"
  by pat_completeness auto
termination
  by (relation "measure id") auto

declare show_nat.simps [simp del]

definition zfill :: "nat \<Rightarrow> pystr \<Rightarrow> pystr" where
  "zfill w s = replicate (w - length s) 48 @ s"

text \<open>
  A finite Python float is the rational number it denotes. The format specification
  \<open>.Nf\<close> prints that exact value rounded to \<open>N\<close> decimals, ties to even, and keeps
  the sign of a negative value that rounds to zero.
\<close>

definition round_half_even :: "rat \<Rightarrow> int" where
  "round_half_even x =
     (let f = \<lfloor>x\<rfloor>; d = x - of_int f
      in if d < 1 / 2 then f else if 1 / 2 < d then f + 1 else if even f then f else f + 1)"

definition format_f :: "nat \<Rightarrow> rat \<Rightarrow> pystr" where
  "format_f p x =
     (let m = nat (round_half_even (\<bar>x\<bar> * 10 ^ p))
      in (if x < 0 then lit ''-'' else []) @ show_nat (m div 10 ^ p)
         @ (if p = 0 then [] else lit ''.'' @ zfill p (show_nat (m mod 10 ^ p))))"

text \<open>
  Exceptions: \<open>Exception m\<close> is any instance of Python's \<open>Exception\<close> with
  \<open>str(e) = m\<close>; \<open>SystemExit\<close> and \<open>KeyboardInterrupt\<close> derive from
  \<open>BaseException\<close> only, so \<open>except Exception\<close> does not catch them.
\<close>

datatype exn = Exception pystr | SystemExit int | KeyboardInterrupt

text \<open>The values a signal dictionary holds: strings, finite floats and \<open>None\<close>.\<close>

datatype pyval = PStr pystr | PFloat rat | PNone

type_synonym signal = "(pystr \<times> pyval) list"

type_synonym datetime = rat

text \<open>
  Formatting done by the Python runtime and not by the bot: \<open>str(x)\<close> of a float
  (its shortest round-trip representation) and
  \<open>strftime('%Y-%m-%d %H:%M:%S')\<close> of a timestamp. A timestamp is a point in
  naive time, in seconds.
\<close>

record pyrt =
  float_str :: "rat \<Rightarrow> pystr"
  strftime :: "datetime \<Rightarrow> pystr"

definition py_str :: "pyrt \<Rightarrow> pyval \<Rightarrow> pystr" where
  "py_str rt v = (case v of PStr s \<Rightarrow> s | PFloat x \<Rightarrow> float_str rt x | PNone \<Rightarrow> lit ''None'')"

text \<open>\<open>format(v, '.Nf')\<close>: defined on floats, an exception on the other values.\<close>

definition quoted :: "pystr \<Rightarrow> pystr" where
  "quoted s = [39] @ s @ [39]"

definition py_format_f :: "nat \<Rightarrow> pyval \<Rightarrow> exn + pystr" where
  "py_format_f p v =
     (case v of
        PFloat x \<Rightarrow> Inr (format_f p x)
      | PStr s \<Rightarrow>
          Inl (Exception (lit ''Unknown format code '' @ quoted (lit ''f'')
                 @ lit '' for object of type '' @ quoted (lit ''str'')))
      | PNone \<Rightarrow>
          Inl (Exception (lit ''unsupported format string passed to NoneType.__format__'')))"

text \<open>\<open>signal[key]\<close> raises \<open>KeyError(key)\<close>, whose text is the quoted key;
  \<open>signal.get(key, default)\<close> does not raise.\<close>

definition sig_item :: "signal \<Rightarrow> pystr \<Rightarrow> exn + pyval" where
  "sig_item sg key =
     (case map_of sg key of None \<Rightarrow> Inl (Exception (quoted key)) | Some v \<Rightarrow> Inr v)"

definition sig_get :: "signal \<Rightarrow> pystr \<Rightarrow> pyval \<Rightarrow> pyval" where
  "sig_get sg key dflt = (case map_of sg key of None \<Rightarrow> dflt | Some v \<Rightarrow> v)"

definition bind_result :: "exn + 'a \<Rightarrow> ('a \<Rightarrow> exn + 'b) \<Rightarrow> exn + 'b" where
  "bind_result r f = (case r of Inl e \<Rightarrow> Inl e | Inr x \<Rightarrow> f x)"

section \<open>Market data frames\<close>

text \<open>
  A pandas \<open>DataFrame\<close> of floats: its index (timestamps), the name of the index and
  its columns by label. \<open>len(df)\<close> is the number of index entries.
\<close>

record dataframe =
  index_name :: "pystr option"
  index :: "datetime list"
  columns :: "(pystr \<times> rat list) list"

definition df_len :: "dataframe \<Rightarrow> int" where
  "df_len d = int (length (index d))"

definition df_column :: "dataframe \<Rightarrow> pystr \<Rightarrow> exn + rat list" where
  "df_column d c =
     (case map_of (columns d) c of None \<Rightarrow> Inl (Exception (quoted c)) | Some xs \<Rightarrow> Inr xs)"

definition iloc_last :: "rat list \<Rightarrow> exn + rat" where
  "iloc_last xs =
     (if xs = [] then Inl (Exception (lit ''single positional indexer is out-of-bounds''))
      else Inr (last xs))"

definition index_last :: "dataframe \<Rightarrow> exn + datetime" where
  "index_last d =
     (if index d = [] then Inl (Exception (lit ''index -1 is out of bounds for axis 0 with size 0''))
      else Inr (last (index d)))"

section \<open>The bot, its collaborators and its effects\<close>

text \<open>
  Everything the bot does to the outside world is an event of its trace: log records,
  clock reads, sleeps and calls of collaborators. A collaborator is external code: its
  answer to a call is any function of the whole history up to and including that call,
  and it is either a value or an exception.
\<close>

datatype level = DEBUG | INFO | WARNING | ERROR

datatype event =
    Log level pystr
  | Print pystr
  | ReadClock
  | Sleep rat
  | GetMarketData pystr pystr int
  | StoreMarketData pystr dataframe
  | TdiCalculate dataframe
  | BollingerCalculate dataframe
  | GenerateSignal dataframe
  | StoreSignal pystr signal datetime
  | SendMessage pystr
  | NotifierShutdown
  | StorageClose
  | CreateTaskShutdown

record bot =
  running :: bool
  trace :: "event list"

record 'i env =
  symbols :: "pystr list"
  timeframe :: pystr
  lookback_periods :: int
  min_data_points :: int
  analysis_interval :: rat
  rt :: pyrt
  now :: "event list \<Rightarrow> datetime"
  get_market_data :: "event list \<Rightarrow> exn + dataframe option"
  store_market_data :: "event list \<Rightarrow> exn + unit"
  tdi_calculate :: "event list \<Rightarrow> exn + 'i"
  bollinger_calculate :: "event list \<Rightarrow> exn + 'i"
  generate_signal :: "event list \<Rightarrow> 'i \<Rightarrow> 'i \<Rightarrow> exn + signal option"
  store_signal :: "event list \<Rightarrow> exn + unit"
  send_message :: "event list \<Rightarrow> exn + unit"
  notifier_shutdown :: "event list \<Rightarrow> exn + unit"
  storage_close :: "event list \<Rightarrow> exn + unit"

text \<open>A method of the bot: from the bot's state to a result or an exception, and the
  new state.\<close>

type_synonym 'a io = "bot \<Rightarrow> (exn + 'a) \<times> bot"

definition ret :: "'a \<Rightarrow> 'a io" where
  "ret x s = (Inr x, s)"

definition throw :: "exn \<Rightarrow> 'a io" where
  "throw e s = (Inl e, s)"

definition from_result :: "exn + 'a \<Rightarrow> 'a io" where
  "from_result r s = (r, s)"

definition then_do :: "'a io \<Rightarrow> ('a \<Rightarrow> 'b io) \<Rightarrow> 'b io" where
  "then_do m f s = (case m s of (Inl e, s') \<Rightarrow> (Inl e, s') | (Inr x, s') \<Rightarrow> f x s')"

text \<open>\<open>try: m  except Exception as e: h(str(e))\<close>. An exception raised by the
  handler itself leaves the statement.\<close>

definition try_except :: "'a io \<Rightarrow> (pystr \<Rightarrow> 'a io) \<Rightarrow> 'a io" where
  "try_except m h s =
     (case m s of
        (Inl (Exception msg), s') \<Rightarrow> h msg s'
      | (Inl e, s') \<Rightarrow> (Inl e, s')
      | (Inr x, s') \<Rightarrow> (Inr x, s'))"

definition emit :: "event \<Rightarrow> unit io" where
  "emit ev s = (Inr (), s\<lparr>trace := trace s @ [ev]\<rparr>)"

definition call :: "event \<Rightarrow> (event list \<Rightarrow> exn + 'a) \<Rightarrow> 'a io" where
  "call ev collaborator s =
     (let h = trace s @ [ev] in (collaborator h, s\<lparr>trace := h\<rparr>))"

definition read_clock :: "'i env \<Rightarrow> datetime io" where
  "read_clock env s = (let h = trace s @ [ReadClock] in (Inr (now env h), s\<lparr>trace := h\<rparr>))"

definition set_running :: "bool \<Rightarrow> unit io" where
  "set_running b s = (Inr (), s\<lparr>running := b\<rparr>)"

section \<open>Signal dispatch (main.py)\<close>

text \<open>The f-string of \<open>send_signal_notification\<close> with its replacement fields as
  parameters, before \<open>strip()\<close>.\<close>

definition notification_template ::
  "pystr \<Rightarrow> pystr \<Rightarrow> pystr \<Rightarrow> pystr \<Rightarrow> pystr \<Rightarrow> pystr \<Rightarrow> pystr \<Rightarrow> pystr \<Rightarrow> pystr \<Rightarrow> pystr
     \<Rightarrow> pystr \<Rightarrow> pystr" where
  "notification_template action_emoji action symbol price time confidence strategy_name
       tdi bollinger stop_loss take_profit =
     concat
       [[10], action_emoji, lit '' **'', action, lit '' SIGNAL**'', [10],
        [128202], lit '' Symbol: '', symbol, [10],
        [128176], lit '' Price: $'', price, [10],
        [9200], lit '' Time: '', time, [10],
        [127919], lit '' Confidence: '', confidence, lit ''%'', [10],
        [128200], lit '' Strategy: '', strategy_name, [10],
        [10],
        lit ''**Indicator Analysis:**'', [10],
        [8226], lit '' TDI: '', tdi, [10],
        [8226], lit '' Bollinger: '', bollinger, [10],
        [10],
        lit ''**Risk Management:**'', [10],
        [8226], lit '' Stop Loss: $'', stop_loss, [10],
        [8226], lit '' Take Profit: $'', take_profit, [10],
        replicate 12 32]"

text \<open>The fields, evaluated in the order of the source: \<open>signal['action']\<close> for the
  emoji, then the fields of the f-string from left to right.\<close>

definition signal_message :: "pyrt \<Rightarrow> pystr \<Rightarrow> signal \<Rightarrow> rat \<Rightarrow> datetime \<Rightarrow> exn + pystr" where
  "signal_message r symbol sg price timestamp =
     bind_result (sig_item sg (lit ''action'')) (\<lambda>action.
       let action_emoji =
             (if action = PStr (lit ''BUY'') then [128994]
              else if action = PStr (lit ''SELL'') then [128308] else [128993])
       in
       bind_result (sig_item sg (lit ''confidence'')) (\<lambda>confidence.
       bind_result (py_format_f 2 confidence) (\<lambda>confidence_2f.
       bind_result (sig_item sg (lit ''strategy_name'')) (\<lambda>strategy_name.
         Inr (notification_template action_emoji (py_str r action) symbol (format_f 4 price)
                (strftime r timestamp) confidence_2f (py_str r strategy_name)
                (py_str r (sig_get sg (lit ''tdi_signal'') (PStr (lit ''N/A''))))
                (py_str r (sig_get sg (lit ''bollinger_signal'') (PStr (lit ''N/A''))))
                (py_str r (sig_get sg (lit ''stop_loss'') (PStr (lit ''N/A''))))
                (py_str r (sig_get sg (lit ''take_profit'') (PStr (lit ''N/A'')))))))))"

definition send_signal_notification ::
  "'i env \<Rightarrow> pystr \<Rightarrow> signal \<Rightarrow> rat \<Rightarrow> datetime \<Rightarrow> unit io" where
  "send_signal_notification env symbol sg price timestamp =
     try_except
       (then_do (from_result (signal_message (rt env) symbol sg price timestamp)) (\<lambda>message.
          call (SendMessage (strip message)) (send_message env)))
       (\<lambda>e. emit (Log ERROR (lit ''Error sending notification: '' @ e)))"

definition handle_signal :: "'i env \<Rightarrow> pystr \<Rightarrow> signal \<Rightarrow> dataframe \<Rightarrow> unit io" where
  "handle_signal env symbol sg data =
     try_except
       (then_do (from_result (bind_result (df_column data (lit ''close'')) iloc_last))
          (\<lambda>current_price.
        then_do (from_result (index_last data)) (\<lambda>timestamp.
        then_do (from_result (sig_item sg (lit ''action''))) (\<lambda>action.
        then_do (emit (Log INFO (lit ''Signal generated for '' @ symbol @ lit '': ''
                   @ py_str (rt env) action @ lit '' at ''
                   @ float_str (rt env) current_price))) (\<lambda>_.
        then_do (call (StoreSignal symbol sg timestamp) (store_signal env)) (\<lambda>_.
          send_signal_notification env symbol sg current_price timestamp))))))
       (\<lambda>e. emit (Log ERROR (lit ''Error handling signal for '' @ symbol @ lit '': '' @ e)))"

section \<open>The per-symbol pipeline and the cycle (main.py)\<close>

definition collect_and_analyze_data :: "'i env \<Rightarrow> pystr \<Rightarrow> unit io" where
  "collect_and_analyze_data env symbol =
     try_except
       (then_do (call (GetMarketData symbol (timeframe env) (lookback_periods env))
                   (get_market_data env)) (\<lambda>data.
          case data of
            None \<Rightarrow> emit (Log WARNING (lit ''Insufficient data for '' @ symbol))
          | Some d \<Rightarrow>
              if df_len d < min_data_points env
              then emit (Log WARNING (lit ''Insufficient data for '' @ symbol))
              else
                then_do (call (StoreMarketData symbol d) (store_market_data env)) (\<lambda>_.
                then_do (call (TdiCalculate d) (tdi_calculate env)) (\<lambda>tdi_signals.
                then_do (call (BollingerCalculate d) (bollinger_calculate env))
                  (\<lambda>bollinger_signals.
                then_do (call (GenerateSignal d)
                           (\<lambda>h. generate_signal env h tdi_signals bollinger_signals))
                  (\<lambda>strategy_signal.
                   case strategy_signal of
                     None \<Rightarrow> ret ()
                   | Some sg \<Rightarrow> if sg = [] then ret () else handle_signal env symbol sg d))))))
       (\<lambda>e.
          then_do (emit (Log ERROR (lit ''Error processing data for '' @ symbol @ lit '': '' @ e)))
            (\<lambda>_.
          call (SendMessage ([10060] @ lit '' Error processing '' @ symbol @ lit '': '' @ e))
            (send_message env)))"

fun for_symbols :: "'i env \<Rightarrow> pystr list \<Rightarrow> unit io" where
  "for_symbols env [] = ret ()"
| "for_symbols env (symbol # rest) =
     then_do (collect_and_analyze_data env symbol) (\<lambda>_.
     then_do (emit (Sleep 1)) (\<lambda>_. for_symbols env rest))"

definition run_analysis_cycle :: "'i env \<Rightarrow> unit io" where
  "run_analysis_cycle env = for_symbols env (symbols env)"

section \<open>The main loop and shutdown (main.py)\<close>

text \<open>Lines 171 to 178 of \<open>run\<close>: the pause after a cycle that took
  \<open>cycle_duration\<close> seconds. \<open>asyncio.sleep\<close> is an event.\<close>

definition pause_after_cycle :: "'i env \<Rightarrow> rat \<Rightarrow> unit io" where
  "pause_after_cycle env cycle_duration =
     (let sleep_time = max 0 (analysis_interval env - cycle_duration)
      in if sleep_time > 0
         then then_do (emit (Log DEBUG (lit ''Cycle completed in '' @ format_f 2 cycle_duration
                         @ lit ''s, sleeping for '' @ format_f 2 sleep_time @ lit ''s'')))
                (\<lambda>_. emit (Sleep sleep_time))
         else emit (Log WARNING (lit ''Cycle took '' @ format_f 2 cycle_duration
                      @ lit ''s, longer than interval!'')))"

text \<open>The body of \<open>while self.running\<close>.\<close>

definition run_iteration :: "'i env \<Rightarrow> unit io" where
  "run_iteration env =
     then_do (read_clock env) (\<lambda>start_time.
     then_do (run_analysis_cycle env) (\<lambda>_.
     then_do (read_clock env) (\<lambda>end_time.
       pause_after_cycle env (end_time - start_time))))"

text \<open>The loop itself may run forever: it is given fuel, and \<open>None\<close> says that the
  fuel ran out while the flag was still set.\<close>

fun run_loop :: "nat \<Rightarrow> 'i env \<Rightarrow> bot \<Rightarrow> ((exn + unit) \<times> bot) option" where
  "run_loop fuel env s =
     (if running s
      then (case fuel of
              0 \<Rightarrow> None
            | Suc k \<Rightarrow>
                (case run_iteration env s of
                   (Inl e, s') \<Rightarrow> Some (Inl e, s')
                 | (Inr _, s') \<Rightarrow> run_loop k env s'))
      else Some (Inr (), s))"

declare run_loop.simps [simp del]

definition run :: "nat \<Rightarrow> 'i env \<Rightarrow> bot \<Rightarrow> ((exn + unit) \<times> bot) option" where
  "run fuel env s =
     (let s1 = snd (emit (Log INFO (lit ''Starting trading bot main loop...''))
                      (s\<lparr>running := True\<rparr>))
      in case run_loop fuel env s1 of
           None \<Rightarrow> None
         | Some (Inl (Exception msg), s2) \<Rightarrow>
             Some (then_do (emit (Log ERROR (lit ''Error in main loop: '' @ msg))) (\<lambda>_.
                   then_do (call (SendMessage ([10060] @ lit '' Trading bot error: '' @ msg))
                              (send_message env)) (\<lambda>_.
                     throw (Exception msg))) s2)
         | Some r \<Rightarrow> Some r)"

definition shutdown :: "'i env \<Rightarrow> unit io" where
  "shutdown env =
     then_do (emit (Log INFO (lit ''Shutting down trading bot...''))) (\<lambda>_.
     then_do (set_running False) (\<lambda>_.
       try_except
         (then_do (read_clock env) (\<lambda>t.
          then_do (call (SendMessage ([128721] @ lit '' Trading Bot Stopped at ''
                           @ strftime (rt env) t)) (send_message env)) (\<lambda>_.
          then_do (call NotifierShutdown (notifier_shutdown env)) (\<lambda>_.
            call StorageClose (storage_close env)))))
         (\<lambda>e. emit (Log ERROR (lit ''Error during shutdown: '' @ e)))))"

text \<open>The handler \<open>main\<close> installs for SIGINT and SIGTERM. \<open>bot_assigned\<close> says
  whether \<open>bot\<close> was already assigned when the signal arrived. \<open>sys.exit(0)\<close> raises
  \<open>SystemExit(0)\<close> in the main thread, at the point it had reached.\<close>

definition show_int :: "int \<Rightarrow> pystr" where
  "show_int i = (if i < 0 then lit ''-'' @ show_nat (nat (- i)) else show_nat (nat i))"

definition signal_handler :: "int \<Rightarrow> bool \<Rightarrow> unit io" where
  "signal_handler signum bot_assigned =
     then_do (emit (Print ([10] @ lit ''Received signal '' @ show_int signum
                      @ lit '', shutting down...''))) (\<lambda>_.
     then_do (if bot_assigned then emit CreateTaskShutdown else ret ()) (\<lambda>_.
       throw (SystemExit 0)))"

section \<open>Fetching market data (binance_client.py, data_fetcher.py)\<close>









section \<open>Observing a run\<close>

text \<open>The events a method appends to the trace when it runs from state \<open>s\<close>.\<close>

definition events_of :: "'a io \<Rightarrow> bot \<Rightarrow> event list" where
  "events_of m s = drop (length (trace s)) (trace (snd (m s)))"

fun is_send :: "event \<Rightarrow> bool" where
  "is_send (SendMessage t) = True"
| "is_send _ = False"

fun is_store_signal :: "event \<Rightarrow> bool" where
  "is_store_signal (StoreSignal symbol sg ts) = True"
| "is_store_signal _ = False"

fun is_fetch :: "event \<Rightarrow> bool" where
  "is_fetch (GetMarketData symbol tf n) = True"
| "is_fetch _ = False"

fun is_sleep :: "event \<Rightarrow> bool" where
  "is_sleep (Sleep d) = True"
| "is_sleep _ = False"

fun is_warning :: "event \<Rightarrow> bool" where
  "is_warning (Log WARNING t) = True"
| "is_warning _ = False"

fun is_error_log :: "event \<Rightarrow> bool" where
  "is_error_log (Log ERROR t) = True"
| "is_error_log _ = False"

fun is_Exception :: "exn \<Rightarrow> bool" where
  "is_Exception (Exception m) = True"
| "is_Exception _ = False"

text \<open>What an \<open>except Exception\<close> handler \<open>h\<close> does with the outcome of its body.\<close>

definition caught :: "(exn + 'a) \<times> bot \<Rightarrow> (pystr \<Rightarrow> 'a io) \<Rightarrow> (exn + 'a) \<times> bot" where
  "caught r h = (case r of (Inl (Exception m), s') \<Rightarrow> h m s' | _ \<Rightarrow> r)"



section \<open>Concrete scenarios\<close>

text \<open>An example runtime: floats printed with one decimal, timestamps of the first
  day of the epoch.\<close>

definition example_rt :: pyrt where
  "example_rt =
     \<lparr>float_str = format_f 1,
      strftime = (\<lambda>t. lit ''1970-01-01 '' @ zfill 2 (show_nat (nat \<lfloor>t\<rfloor> div 3600 mod 24))
                     @ lit '':'' @ zfill 2 (show_nat (nat \<lfloor>t\<rfloor> div 60 mod 60))
                     @ lit '':'' @ zfill 2 (show_nat (nat \<lfloor>t\<rfloor> mod 60)))\<rparr>"

text \<open>A frame of \<open>n\<close> bars, one per second.\<close>

definition example_frame :: "nat \<Rightarrow> dataframe" where
  "example_frame n =
     \<lparr>index_name = Some (lit ''timestamp''),
      index = map of_nat [0..<n],
      columns =
        [(lit ''open'', replicate n 100), (lit ''high'', replicate n 102),
         (lit ''low'', replicate n 99), (lit ''close'', replicate n (203 / 2)),
         (lit ''volume'', replicate n 7)]\<rparr>"

definition example_signal :: signal where
  "example_signal =
     [(lit ''action'', PStr (lit ''BUY'')), (lit ''confidence'', PFloat (145 / 2)),
      (lit ''strategy_name'', PStr (lit ''consolidated''))]"

text \<open>The signal of the specification's scenario: no \<open>strategy_name\<close>.\<close>

definition scenario_signal :: signal where
  "scenario_signal = [(lit ''action'', PStr (lit ''BUY'')), (lit ''confidence'', PFloat (145 / 2))]"

text \<open>One symbol, 100 bars fetched, minimum 50, every collaborator answers; the clock
  advances one second per event.\<close>

definition example_env :: "unit env" where
  "example_env =
     \<lparr>symbols = [lit ''BTC/USDT''],
      timeframe = lit ''5m'',
      lookback_periods = 100,
      min_data_points = 50,
      analysis_interval = 300,
      rt = example_rt,
      now = (\<lambda>h. of_nat (length h)),
      get_market_data = (\<lambda>h. Inr (Some (example_frame 100))),
      store_market_data = (\<lambda>h. Inr ()),
      tdi_calculate = (\<lambda>h. Inr ()),
      bollinger_calculate = (\<lambda>h. Inr ()),
      generate_signal = (\<lambda>h t b. Inr (Some example_signal)),
      store_signal = (\<lambda>h. Inr ()),
      send_message = (\<lambda>h. Inr ()),
      notifier_shutdown = (\<lambda>h. Inr ()),
      storage_close = (\<lambda>h. Inr ())\<rparr>"

definition idle_bot :: bot where
  "idle_bot = \<lparr>running = False, trace = []\<rparr>"

text \<open>The same bot at another moment, with a notifier that is down and a clock an hour
  ahead.\<close>

definition offline_env :: "unit env" where
  "offline_env =
     example_env\<lparr>now := (\<lambda>h. 3600 + of_nat (length h)),
                  send_message := (\<lambda>h. Inl (Exception (lit ''network down'')))\<rparr>"

definition busy_bot :: bot where
  "busy_bot = \<lparr>running = True, trace = [ReadClock, Sleep 1]\<rparr>"


text \<open>The data store refuses every signal.\<close>

definition storage_down_env :: "unit env" where
  "storage_down_env = example_env\<lparr>store_signal := (\<lambda>h. Inl (Exception (lit ''db down'')))\<rparr>"

text \<open>Two symbols; the fetch for the first one times out, and the notifier is down.\<close>

definition outage_env :: "unit env" where
  "outage_env =
     example_env
       \<lparr>symbols := [lit ''ETH/USDT'', lit ''BTC/USDT''],
        get_market_data := (\<lambda>h.
          if last h = GetMarketData (lit ''ETH/USDT'') (lit ''5m'') 100
          then Inl (Exception (lit ''timeout'')) else Inr (Some (example_frame 100))),
        send_message := (\<lambda>h. Inl (Exception (lit ''network down'')))\<rparr>"

text \<open>The strategy answers with the signal of the specification's scenario.\<close>

definition scenario_env :: "unit env" where
  "scenario_env = example_env\<lparr>generate_signal := (\<lambda>h t b. Inr (Some scenario_signal))\<rparr>"

fun is_close :: "event \<Rightarrow> bool" where
  "is_close NotifierShutdown = True"
| "is_close StorageClose = True"
| "is_close _ = False"

section \<open>Basic facts\<close>

section \<open>Number formatting\<close>


lemma show_nat_nonempty: "show_nat n \<noteq> []"
  by (subst show_nat.simps) simp










lemmas io_defs = ret_def throw_def from_result_def then_do_def try_except_def emit_def call_def
  read_clock_def set_running_def

lemma events_of_append [simp]:
  "trace (snd (m s)) = trace s @ evs \<Longrightarrow> events_of m s = evs"
  by (simp add: events_of_def)


section \<open>The notification text\<close>

lemma signal_message_exn: "signal_message r symbol sg price ts = Inl e \<Longrightarrow> is_Exception e"
  by (auto simp: signal_message_def bind_result_def sig_item_def py_format_f_def Let_def
      split: option.splits pyval.splits)



lemma send_signal_notification_run:
  "send_signal_notification env symbol sg price ts s =
     (case signal_message (rt env) symbol sg price ts of
        Inl (Exception m) \<Rightarrow>
          (Inr (), s\<lparr>trace := trace s @ [Log ERROR (lit ''Error sending notification: '' @ m)]\<rparr>)
      | Inl e \<Rightarrow> (Inl e, s)
      | Inr text \<Rightarrow>
          (case send_message env (trace s @ [SendMessage (strip text)]) of
             Inl (Exception m) \<Rightarrow>
               (Inr (), s\<lparr>trace := trace s @ [SendMessage (strip text),
                                Log ERROR (lit ''Error sending notification: '' @ m)]\<rparr>)
           | r \<Rightarrow> (r, s\<lparr>trace := trace s @ [SendMessage (strip text)]\<rparr>)))"
  by (simp add: send_signal_notification_def io_defs Let_def split: sum.splits exn.splits)

lemma send_signal_notification_sends:
  "filter is_send (events_of (send_signal_notification env symbol sg price ts) s) =
     (case signal_message (rt env) symbol sg price ts of
        Inr text \<Rightarrow> [SendMessage (strip text)] | Inl e \<Rightarrow> [])"
  by (simp add: send_signal_notification_run events_of_def split: sum.splits exn.splits)





text \<open>
  Claim C8. The text of a signal notification depends only on the symbol, the signal,
  the price and the timestamp (and on how the Python runtime prints floats and dates):
  two calls with these inputs send the same text, whatever the state of the bot, the
  history, the clock and the answers of the collaborators.
\<close>

theorem notification_text_deterministic:
  assumes "rt env1 = rt env2"
  shows "filter is_send (events_of (send_signal_notification env1 symbol sg price ts) s1)
       = filter is_send (events_of (send_signal_notification env2 symbol sg price ts) s2)"
  by (simp add: send_signal_notification_sends assms)

theorem notification_text_deterministic_witness:
  "filter is_send (events_of (send_signal_notification example_env (lit ''BTC/USDT'')
       example_signal (203 / 2) 99) idle_bot)
   = filter is_send (events_of (send_signal_notification offline_env (lit ''BTC/USDT'')
       example_signal (203 / 2) 99) busy_bot)"
  using notification_text_deterministic [of example_env offline_env "lit ''BTC/USDT''"
      example_signal "203 / 2" 99 idle_bot busy_bot]
  by (simp add: offline_env_def)


section \<open>Fetching market data\<close>







section \<open>Running a method step by step\<close>

lemma then_do_ret [simp]: "then_do (ret x) f s = f x s"
  by (simp add: then_do_def ret_def)

lemma then_do_throw [simp]: "then_do (throw e) f s = (Inl e, s)"
  by (simp add: then_do_def throw_def)

lemma then_do_emit [simp]: "then_do (emit ev) f s = f () (s\<lparr>trace := trace s @ [ev]\<rparr>)"
  by (simp add: then_do_def emit_def)

lemma then_do_set_running [simp]: "then_do (set_running b) f s = f () (s\<lparr>running := b\<rparr>)"
  by (simp add: then_do_def set_running_def)

lemma then_do_read_clock [simp]:
  "then_do (read_clock env) f s =
     f (now env (trace s @ [ReadClock])) (s\<lparr>trace := trace s @ [ReadClock]\<rparr>)"
  by (simp add: then_do_def read_clock_def Let_def)

lemma then_do_call:
  "then_do (call ev c) f s =
     (case c (trace s @ [ev]) of
        Inl e \<Rightarrow> (Inl e, s\<lparr>trace := trace s @ [ev]\<rparr>)
      | Inr x \<Rightarrow> f x (s\<lparr>trace := trace s @ [ev]\<rparr>))"
  by (simp add: then_do_def call_def Let_def split: sum.splits)

lemma then_do_from_result:
  "then_do (from_result r) f s = (case r of Inl e \<Rightarrow> (Inl e, s) | Inr x \<Rightarrow> f x s)"
  by (simp add: then_do_def from_result_def split: sum.splits)

lemma caught_simps [simp]:
  "caught (Inl (Exception m), s) h = h m s"
  "caught (Inl (SystemExit k), s) h = (Inl (SystemExit k), s)"
  "caught (Inl KeyboardInterrupt, s) h = (Inl KeyboardInterrupt, s)"
  "caught (Inr x, s) h = (Inr x, s)"
  by (simp_all add: caught_def)

lemma try_except_caught: "try_except m h s = caught (m s) h"
  by (simp add: try_except_def caught_def split: prod.splits sum.splits exn.splits)

lemma try_then_emit [simp]:
  "try_except (then_do (emit ev) f) h s = try_except (f ()) h (s\<lparr>trace := trace s @ [ev]\<rparr>)"
  by (simp add: try_except_caught)

lemma try_then_read_clock [simp]:
  "try_except (then_do (read_clock env) f) h s =
     try_except (f (now env (trace s @ [ReadClock]))) h (s\<lparr>trace := trace s @ [ReadClock]\<rparr>)"
  by (simp add: try_except_caught)

lemma try_then_call:
  "try_except (then_do (call ev c) f) h s =
     (case c (trace s @ [ev]) of
        Inl e \<Rightarrow> caught (Inl e, s\<lparr>trace := trace s @ [ev]\<rparr>) h
      | Inr x \<Rightarrow> try_except (f x) h (s\<lparr>trace := trace s @ [ev]\<rparr>))"
  by (simp add: try_except_caught then_do_call split: sum.splits)

lemma try_then_from_result:
  "try_except (then_do (from_result r) f) h s =
     (case r of Inl e \<Rightarrow> caught (Inl e, s) h | Inr x \<Rightarrow> try_except (f x) h s)"
  by (simp add: try_except_caught then_do_from_result split: sum.splits)

lemma try_call:
  "try_except (call ev c) h s =
     (case c (trace s @ [ev]) of
        Inl e \<Rightarrow> caught (Inl e, s\<lparr>trace := trace s @ [ev]\<rparr>) h
      | Inr x \<Rightarrow> (Inr x, s\<lparr>trace := trace s @ [ev]\<rparr>))"
  by (simp add: try_except_caught call_def Let_def split: sum.splits)

lemma try_emit [simp]:
  "try_except (emit ev) h s = (Inr (), s\<lparr>trace := trace s @ [ev]\<rparr>)"
  by (simp add: try_except_caught emit_def)

lemma try_ret [simp]: "try_except (ret x) h s = (Inr x, s)"
  by (simp add: try_except_caught ret_def)

lemma emit_run [simp]: "emit ev s = (Inr (), s\<lparr>trace := trace s @ [ev]\<rparr>)"
  by (simp add: emit_def)

lemma call_run: "call ev c s = (c (trace s @ [ev]), s\<lparr>trace := trace s @ [ev]\<rparr>)"
  by (simp add: call_def Let_def)

lemmas exec = then_do_call then_do_from_result try_then_call try_then_from_result try_call call_run

section \<open>Facts about the scenarios\<close>

lemma example_strftime [simp]:
  "strftime example_rt 2 = lit ''1970-01-01 00:00:02''"
  "strftime example_rt 3602 = lit ''1970-01-01 01:00:02''"
  "strftime example_rt 99 = lit ''1970-01-01 00:01:39''"
  "strftime example_rt 7 = lit ''1970-01-01 00:00:07''"
  by (simp_all add: example_rt_def show_nat.simps zfill_def lit_def)

lemma example_env_simps [simp]:
  "rt example_env = example_rt"
  "now example_env h = of_nat (length h)"
  "symbols example_env = [lit ''BTC/USDT'']"
  "timeframe example_env = lit ''5m''"
  "lookback_periods example_env = 100"
  "min_data_points example_env = 50"
  "analysis_interval example_env = 300"
  "get_market_data example_env h = Inr (Some (example_frame 100))"
  "store_market_data example_env h = Inr ()"
  "tdi_calculate example_env h = Inr ()"
  "bollinger_calculate example_env h = Inr ()"
  "generate_signal example_env h t b = Inr (Some example_signal)"
  "store_signal example_env h = Inr ()"
  "send_message example_env h = Inr ()"
  "notifier_shutdown example_env h = Inr ()"
  "storage_close example_env h = Inr ()"
  by (simp_all add: example_env_def)

lemma offline_env_simps [simp]:
  "rt offline_env = example_rt"
  "now offline_env h = 3600 + of_nat (length h)"
  "send_message offline_env h = Inl (Exception (lit ''network down''))"
  "notifier_shutdown offline_env h = Inr ()"
  "storage_close offline_env h = Inr ()"
  "store_signal offline_env h = Inr ()"
  by (simp_all add: offline_env_def example_env_def)

section \<open>Shutdown\<close>

lemma shutdown_run:
  "shutdown env s =
     (let h0 = trace s @ [Log INFO (lit ''Shutting down trading bot...''), ReadClock];
          h1 = h0 @ [SendMessage ([128721] @ lit '' Trading Bot Stopped at ''
                       @ strftime (rt env) (now env h0))];
          h2 = h1 @ [NotifierShutdown];
          h3 = h2 @ [StorageClose];
          failed = (\<lambda>h e. caught (Inl e, s\<lparr>running := False, trace := h\<rparr>)
                     (\<lambda>m. emit (Log ERROR (lit ''Error during shutdown: '' @ m))))
      in case send_message env h1 of
           Inl e \<Rightarrow> failed h1 e
         | Inr _ \<Rightarrow>
             (case notifier_shutdown env h2 of
                Inl e \<Rightarrow> failed h2 e
              | Inr _ \<Rightarrow>
                  (case storage_close env h3 of
                     Inl e \<Rightarrow> failed h3 e
                   | Inr _ \<Rightarrow> (Inr (), s\<lparr>running := False, trace := h3\<rparr>))))"
  by (simp add: shutdown_def exec Let_def cong: sum.case_cong)

lemma shutdown_effects:
  "(let h0 = trace s @ [Log INFO (lit ''Shutting down trading bot...''), ReadClock];
        h1 = h0 @ [SendMessage ([128721] @ lit '' Trading Bot Stopped at ''
                     @ strftime (rt env) (now env h0))];
        h2 = h1 @ [NotifierShutdown];
        h3 = h2 @ [StorageClose];
        evs = events_of (shutdown env) s
    in filter is_send evs = [last h1]
     \<and> running (snd (shutdown env s)) = False
     \<and> (\<forall>m. fst (shutdown env s) \<noteq> Inl (Exception m))
     \<and> (NotifierShutdown \<in> set evs \<longleftrightarrow> send_message env h1 = Inr ())
     \<and> (StorageClose \<in> set evs
          \<longleftrightarrow> send_message env h1 = Inr () \<and> notifier_shutdown env h2 = Inr ())
     \<and> length (filter is_error_log evs) \<le> 1
     \<and> (filter is_error_log evs \<noteq> []
          \<longleftrightarrow> (\<exists>m. send_message env h1 = Inl (Exception m))
            \<or> send_message env h1 = Inr () \<and> (\<exists>m. notifier_shutdown env h2 = Inl (Exception m))
            \<or> send_message env h1 = Inr () \<and> notifier_shutdown env h2 = Inr ()
               \<and> (\<exists>m. storage_close env h3 = Inl (Exception m))))"
proof -
  define h0 where "h0 = trace s @ [Log INFO (lit ''Shutting down trading bot...''), ReadClock]"
  define h1 where "h1 = h0 @ [SendMessage ([128721] @ lit '' Trading Bot Stopped at ''
                     @ strftime (rt env) (now env h0))]"
  define h2 where "h2 = h1 @ [NotifierShutdown]"
  define h3 where "h3 = h2 @ [StorageClose]"
  note hs = h0_def h1_def h2_def h3_def
  show ?thesis
  proof (cases "send_message env h1")
    case (Inl e)
    then show ?thesis
      by (cases e) (simp_all add: shutdown_run Let_def events_of_def hs)
  next
    case send: (Inr u)
    show ?thesis
    proof (cases "notifier_shutdown env h2")
      case (Inl e)
      with send show ?thesis
        by (cases e) (simp_all add: shutdown_run Let_def events_of_def hs)
    next
      case ns: (Inr v)
      show ?thesis
      proof (cases "storage_close env h3")
        case (Inl e)
        with send ns show ?thesis
          by (cases e) (simp_all add: shutdown_run Let_def events_of_def hs)
      next
        case (Inr w)
        with send ns show ?thesis
          by (simp add: shutdown_run Let_def events_of_def hs)
      qed
    qed
  qed
qed

text \<open>
  Claim C3, as the code has it. Every \<open>shutdown()\<close> clears the flag and attempts exactly
  one shutdown notification; no \<open>Exception\<close> leaves it, and a failure is logged once.
  The three calls are in one \<open>try\<close> block: the notifier is closed only when the
  notification succeeded, and the data store only when closing the notifier succeeded.
\<close>

theorem shutdown_attempts:
  "(let h0 = trace s @ [Log INFO (lit ''Shutting down trading bot...''), ReadClock];
        h1 = h0 @ [SendMessage ([128721] @ lit '' Trading Bot Stopped at ''
                     @ strftime (rt env) (now env h0))];
        h2 = h1 @ [NotifierShutdown];
        h3 = h2 @ [StorageClose];
        evs = events_of (shutdown env) s
    in filter is_send evs = [last h1]
     \<and> running (snd (shutdown env s)) = False
     \<and> (\<forall>m. fst (shutdown env s) \<noteq> Inl (Exception m))
     \<and> (NotifierShutdown \<in> set evs \<longleftrightarrow> send_message env h1 = Inr ())
     \<and> (StorageClose \<in> set evs
          \<longleftrightarrow> send_message env h1 = Inr () \<and> notifier_shutdown env h2 = Inr ())
     \<and> length (filter is_error_log evs) \<le> 1
     \<and> (filter is_error_log evs \<noteq> []
          \<longleftrightarrow> (\<exists>m. send_message env h1 = Inl (Exception m))
            \<or> send_message env h1 = Inr () \<and> (\<exists>m. notifier_shutdown env h2 = Inl (Exception m))
            \<or> send_message env h1 = Inr () \<and> notifier_shutdown env h2 = Inr ()
               \<and> (\<exists>m. storage_close env h3 = Inl (Exception m))))"
  by (rule shutdown_effects)

theorem shutdown_attempts_witness:
  "NotifierShutdown \<in> set (events_of (shutdown example_env) idle_bot)
   \<and> StorageClose \<in> set (events_of (shutdown example_env) idle_bot)
   \<and> running (snd (shutdown example_env idle_bot)) = False
   \<and> length (filter is_send (events_of (shutdown example_env) idle_bot)) = 1"
  using shutdown_attempts [of idle_bot example_env]
  by (simp add: Let_def)

text \<open>
  Claim C3 as stated fails: when the shutdown notification raises, neither the notifier
  nor the data store is closed.
\<close>

theorem shutdown_counterexample:
  "events_of (shutdown offline_env) idle_bot =
     [Log INFO (lit ''Shutting down trading bot...''), ReadClock,
      SendMessage ([128721] @ lit '' Trading Bot Stopped at 1970-01-01 01:00:02''),
      Log ERROR (lit ''Error during shutdown: network down'')]
   \<and> filter is_close (events_of (shutdown offline_env) idle_bot) = []"
  by (simp add: shutdown_run events_of_def idle_bot_def Let_def lit_def)


text \<open>
  Claim C9, as the code has it. \<open>shutdown()\<close> has no guard: only the running flag is
  idempotent. A second shutdown after a completed one leaves the flag false, and again
  attempts one notification and, as far as each step succeeds, both closes.
\<close>

theorem second_shutdown_repeats:
  "(let s1 = snd (shutdown env s);
        h0 = trace s1 @ [Log INFO (lit ''Shutting down trading bot...''), ReadClock];
        h1 = h0 @ [SendMessage ([128721] @ lit '' Trading Bot Stopped at ''
                     @ strftime (rt env) (now env h0))];
        h2 = h1 @ [NotifierShutdown];
        evs = events_of (shutdown env) s1
    in running s1 = False
     \<and> running (snd (shutdown env s1)) = False
     \<and> filter is_send evs = [last h1]
     \<and> (send_message env h1 = Inr () \<longrightarrow> NotifierShutdown \<in> set evs)
     \<and> (send_message env h1 = Inr () \<and> notifier_shutdown env h2 = Inr ()
          \<longrightarrow> StorageClose \<in> set evs))"
  using shutdown_effects [of s env] shutdown_effects [of "snd (shutdown env s)" env]
  by (simp add: Let_def)

theorem second_shutdown_repeats_witness:
  "running (snd (shutdown example_env (snd (shutdown example_env idle_bot)))) = False
   \<and> length (filter is_send
        (events_of (shutdown example_env) (snd (shutdown example_env idle_bot)))) = 1
   \<and> NotifierShutdown
        \<in> set (events_of (shutdown example_env) (snd (shutdown example_env idle_bot)))
   \<and> StorageClose
        \<in> set (events_of (shutdown example_env) (snd (shutdown example_env idle_bot)))"
  using second_shutdown_repeats [of example_env idle_bot]
  by (simp add: Let_def)

text \<open>
  Claim C9 as stated fails: a second shutdown sends a second notification and closes
  the notifier and the data store a second time.
\<close>

theorem second_shutdown_counterexample:
  "events_of (then_do (shutdown example_env) (\<lambda>_. shutdown example_env)) idle_bot =
     [Log INFO (lit ''Shutting down trading bot...''), ReadClock,
      SendMessage ([128721] @ lit '' Trading Bot Stopped at 1970-01-01 00:00:02''),
      NotifierShutdown, StorageClose,
      Log INFO (lit ''Shutting down trading bot...''), ReadClock,
      SendMessage ([128721] @ lit '' Trading Bot Stopped at 1970-01-01 00:00:07''),
      NotifierShutdown, StorageClose]"
  by (simp add: then_do_def shutdown_run events_of_def idle_bot_def Let_def lit_def)

end
